theory Spec2Isabelle
  imports Complex_Main
begin

section \<open>Customer service tools: a shallow embedding of \<open>tools/tools.py\<close>\<close>

text \<open>
  The tools call external services (a mail relay, a CRM, the compute catalog and the
  billing catalog). Each service is a parameter of the model: a function from the request
  to either the exception it raises or the response it gives. Python exceptions are
  values of \<open>error\<close>; a tool returns either its result or the exception that leaves it.
  Python floats are modelled by exact rationals.
\<close>

datatype error =
    AttributeError
  | KeyError
  | IndexError
  | ValueError
  | RecursionError
  | ApiException string
  | ServiceError string

text \<open>
  The outcome of a call: the value returned, the exception that leaves the call, or (for
  a loop observed for a bounded number of iterations) the value held when the
  observation stops.
\<close>

datatype 'a run = Returned 'a | Raised error | Running 'a

subsection \<open>Configuration (\<open>config.py\<close>)\<close>

text \<open>
  The tools read settings by attribute name from the module-level \<open>configs\<close> object. A
  settings lookup gives the value of an attribute, or \<open>None\<close> where the object has no
  such attribute (Python raises \<open>AttributeError\<close> there).
\<close>

type_synonym settings = "string \<Rightarrow> string option"

record Config =
  app_name :: string
  CLOUD_PROJECT :: string
  CLOUD_LOCATION :: string
  GENAI_USE_VERTEXAI :: string
  API_KEY :: string
  SENDER_EMAIL :: string
  SENDER_PASSWORD :: string
  HUBSPOT_API_KEY :: string

text \<open>
  Attribute access on a \<open>Config\<close> object, for its string-valued fields (the nested
  \<open>agent_settings\<close> model is not read by the tools). Attribute names are case sensitive.
\<close>

definition Config_getattr :: "Config \<Rightarrow> settings" where
  "Config_getattr c a =
     (if a = ''app_name'' then Some (app_name c)
      else if a = ''CLOUD_PROJECT'' then Some (CLOUD_PROJECT c)
      else if a = ''CLOUD_LOCATION'' then Some (CLOUD_LOCATION c)
      else if a = ''GENAI_USE_VERTEXAI'' then Some (GENAI_USE_VERTEXAI c)
      else if a = ''API_KEY'' then Some (API_KEY c)
      else if a = ''SENDER_EMAIL'' then Some (SENDER_EMAIL c)
      else if a = ''SENDER_PASSWORD'' then Some (SENDER_PASSWORD c)
      else if a = ''HUBSPOT_API_KEY'' then Some (HUBSPOT_API_KEY c)
      else None)"

definition Config_defaults :: Config where
  "Config_defaults =
     \<lparr> app_name = ''NexusLM Customer Service Agent'',
       CLOUD_PROJECT = ''my_project'',
       CLOUD_LOCATION = ''us-central1'',
       GENAI_USE_VERTEXAI = ''1'',
       API_KEY = '''',
       SENDER_EMAIL = '''',
       SENDER_PASSWORD = '''',
       HUBSPOT_API_KEY = '''' \<rparr>"

subsection \<open>The compute catalog and the billing catalog\<close>

datatype collection = Instances | Disks

record request =
  collection :: collection
  project :: string
  zone :: string
  pageToken :: "string option"

text \<open>
  A listed resource is a dictionary; a key the code reads may be absent. \<open>sizeGb\<close> is
  the integer that \<open>int(disk['sizeGb'])\<close> reads.
\<close>

record resource =
  labels :: "(string \<rightharpoonup> string) option"
  res_name :: "string option"
  machineType :: "string option"
  res_type :: "string option"
  sizeGb :: "int option"

record response =
  items :: "resource list option"
  nextPageToken :: "string option"

record tiered_rate =
  nanos :: int

record pricing_info =
  tieredRates :: "tiered_rate list"

record sku =
  pricingInfo :: "pricing_info list"

record sku_response =
  skus :: "sku list option"

record cloud =
  zone_input :: string
  compute :: "request \<Rightarrow> error + response"
  billing :: "string \<Rightarrow> error + sku_response"

definition instances_list :: "string \<Rightarrow> string \<Rightarrow> request" where
  "instances_list p z = \<lparr> collection = Instances, project = p, zone = z, pageToken = None \<rparr>"

definition disks_list :: "string \<Rightarrow> string \<Rightarrow> request" where
  "disks_list p z = \<lparr> collection = Disks, project = p, zone = z, pageToken = None \<rparr>"

text \<open>
  \<open>list_next(previous_request, previous_response)\<close> of the client library: no request
  when the response carries no continuation token, otherwise the previous request with
  the token set.
\<close>

definition list_next :: "request option \<Rightarrow> response \<Rightarrow> request option" where
  "list_next previous_request previous_response =
     (case nextPageToken previous_response of
        None \<Rightarrow> None
      | Some t \<Rightarrow>
          if t = [] then None
          else map_option (\<lambda>r. r\<lparr>pageToken := Some t\<rparr>) previous_request)"

text \<open>\<open>response.get('items', [])\<close>\<close>

definition get_items :: "response \<Rightarrow> resource list" where
  "get_items resp = (case items resp of None \<Rightarrow> [] | Some rs \<Rightarrow> rs)"

text \<open>\<open>r.get('labels', {}).get('customer_id') == customer_id\<close>\<close>

definition label_matches :: "string \<Rightarrow> resource \<Rightarrow> bool" where
  "label_matches customer_id r =
     ((case labels r of None \<Rightarrow> None | Some l \<Rightarrow> l ''customer_id'') = Some customer_id)"

text \<open>\<open>s.split('/')[-1]\<close>: what follows the last slash.\<close>

definition last_segment :: "string \<Rightarrow> string" where
  "last_segment s = rev (takeWhile (\<lambda>c. c \<noteq> CHR ''/'') (rev s))"

text \<open>
  \<open>float(price_request['skus'][0]['pricingInfo'][0]['pricingExpression']['tieredRates'][0]['unitPrice']['nanos']) / 1e9\<close>
\<close>

definition unit_price :: "sku_response \<Rightarrow> error + rat" where
  "unit_price price_request =
     (case skus price_request of
        None \<Rightarrow> Inl KeyError
      | Some [] \<Rightarrow> Inl IndexError
      | Some (s # _) \<Rightarrow>
          (case pricingInfo s of
             [] \<Rightarrow> Inl IndexError
           | p # _ \<Rightarrow>
               (case tieredRates p of
                  [] \<Rightarrow> Inl IndexError
                | t # _ \<Rightarrow> Inr (of_int (nanos t) / 1000000000))))"

subsection \<open>The cart\<close>

datatype item_name = InstanceName string | DiskName string int

record cart_item =
  product_id :: string
  name :: item_name
  quantity :: int
  monthly_cost :: rat

record cart =
  cart_items :: "cart_item list"
  cart_subtotal :: rat

text \<open>The local variables of \<open>retrieve_cart_information\<close> that its loops update.\<close>

record cart_state =
  the_request :: "request option"
  the_cart :: cart

definition add_item :: "cart_item \<Rightarrow> cart \<Rightarrow> cart" where
  "add_item it c =
     \<lparr> cart_items = cart_items c @ [it], cart_subtotal = cart_subtotal c + monthly_cost it \<rparr>"

text \<open>Lines 183--201: the cart item of a matched instance.\<close>

definition instance_item :: "cloud \<Rightarrow> resource \<Rightarrow> error + cart_item" where
  "instance_item env instance =
     (case machineType instance of
        None \<Rightarrow> Inl KeyError
      | Some mt \<Rightarrow>
          (let machine_type = last_segment mt in
           case billing env machine_type of
             Inl e \<Rightarrow> Inl e
           | Inr price_request \<Rightarrow>
               (case unit_price price_request of
                  Inl e \<Rightarrow> Inl e
                | Inr price_per_hour \<Rightarrow>
                    (case res_name instance of
                       None \<Rightarrow> Inl KeyError
                     | Some n \<Rightarrow>
                         Inr \<lparr> product_id = machine_type, name = InstanceName n,
                               quantity = 1, monthly_cost = price_per_hour * 730 \<rparr>))))"

text \<open>Lines 212--231: the cart item of a matched disk.\<close>

definition disk_item :: "cloud \<Rightarrow> resource \<Rightarrow> error + cart_item" where
  "disk_item env disk =
     (case res_type disk of
        None \<Rightarrow> Inl KeyError
      | Some ty \<Rightarrow>
          (let disk_type = last_segment ty in
           case sizeGb disk of
             None \<Rightarrow> Inl KeyError
           | Some size_gb \<Rightarrow>
               (case billing env disk_type of
                  Inl e \<Rightarrow> Inl e
                | Inr price_request \<Rightarrow>
                    (case unit_price price_request of
                       Inl e \<Rightarrow> Inl e
                     | Inr price_per_gb \<Rightarrow>
                         Inr \<lparr> product_id = disk_type, name = DiskName disk_type size_gb,
                               quantity = 1, monthly_cost = price_per_gb * of_int size_gb \<rparr>))))"

text \<open>
  Lines 181--204, the \<open>for\<close> loop over one page of the instance listing. The
  assignment \<open>request = compute.instances().list_next(...)\<close> is in the body of the
  \<open>for\<close>, so it runs once for every listed resource.
\<close>

fun instances_page ::
  "string \<Rightarrow> cloud \<Rightarrow> response \<Rightarrow> resource list \<Rightarrow> cart_state \<Rightarrow> error + cart_state" where
  "instances_page customer_id env resp [] st = Inr st"
| "instances_page customer_id env resp (instance # rest) st =
     (if label_matches customer_id instance then
        (case instance_item env instance of
           Inl e \<Rightarrow> Inl e
         | Inr it \<Rightarrow>
             instances_page customer_id env resp rest
               \<lparr> the_request = list_next (the_request st) resp,
                 the_cart = add_item it (the_cart st) \<rparr>)
      else
        instances_page customer_id env resp rest
          (st\<lparr>the_request := list_next (the_request st) resp\<rparr>))"

text \<open>Lines 210--232, the \<open>for\<close> loop over one page of the disk listing.\<close>

fun disks_page :: "string \<Rightarrow> cloud \<Rightarrow> resource list \<Rightarrow> cart_state \<Rightarrow> error + cart_state" where
  "disks_page customer_id env [] st = Inr st"
| "disks_page customer_id env (disk # rest) st =
     (if label_matches customer_id disk then
        (case disk_item env disk of
           Inl e \<Rightarrow> Inl e
         | Inr it \<Rightarrow>
             disks_page customer_id env rest (st\<lparr>the_cart := add_item it (the_cart st)\<rparr>))
      else disks_page customer_id env rest st)"

text \<open>
  Lines 179--207, the first \<open>while request is not None\<close> loop. Its last statement,
  \<open>request = compute.disks().list(...)\<close>, is in the body of the \<open>while\<close>. The first
  argument bounds the number of iterations observed; the last is the list of the
  requests executed so far, in order.
\<close>

fun instances_loop ::
  "nat \<Rightarrow> settings \<Rightarrow> cloud \<Rightarrow> string \<Rightarrow> cart_state \<Rightarrow> request list
     \<Rightarrow> cart_state run \<times> request list" where
  "instances_loop 0 cfg env customer_id st executed =
     (case the_request st of
        None \<Rightarrow> (Returned st, executed)
      | Some req \<Rightarrow> (Running st, executed))"
| "instances_loop (Suc fuel) cfg env customer_id st executed =
     (case the_request st of
        None \<Rightarrow> (Returned st, executed)
      | Some req \<Rightarrow>
          (case compute env req of
             Inl e \<Rightarrow> (Raised e, executed @ [req])
           | Inr resp \<Rightarrow>
               (case instances_page customer_id env resp (get_items resp) st of
                  Inl e \<Rightarrow> (Raised e, executed @ [req])
                | Inr st' \<Rightarrow>
                    (case cfg ''GOOGLE_CLOUD_PROJECT'' of
                       None \<Rightarrow> (Raised AttributeError, executed @ [req])
                     | Some p \<Rightarrow>
                         instances_loop fuel cfg env customer_id
                           (st'\<lparr>the_request := Some (disks_list p (zone_input env))\<rparr>)
                           (executed @ [req])))))"

text \<open>Lines 208--234, the second \<open>while request is not None\<close> loop.\<close>

fun disks_loop ::
  "nat \<Rightarrow> cloud \<Rightarrow> string \<Rightarrow> cart_state \<Rightarrow> request list \<Rightarrow> cart_state run \<times> request list" where
  "disks_loop 0 env customer_id st executed =
     (case the_request st of
        None \<Rightarrow> (Returned st, executed)
      | Some req \<Rightarrow> (Running st, executed))"
| "disks_loop (Suc fuel) env customer_id st executed =
     (case the_request st of
        None \<Rightarrow> (Returned st, executed)
      | Some req \<Rightarrow>
          (case compute env req of
             Inl e \<Rightarrow> (Raised e, executed @ [req])
           | Inr resp \<Rightarrow>
               (case disks_page customer_id env (get_items resp) st of
                  Inl e \<Rightarrow> (Raised e, executed @ [req])
                | Inr st' \<Rightarrow>
                    disks_loop fuel env customer_id
                      (st'\<lparr>the_request := list_next (the_request st') resp\<rparr>)
                      (executed @ [req]))))"

text \<open>
  \<open>retrieve_cart_information\<close>. The handler \<open>except Exception\<close> logs and re-raises, so
  an exception leaves the call unchanged. Building the two clients and asking for the
  zone are taken to succeed. The first argument bounds the iterations observed of each
  loop. The result pairs the outcome with the list of compute requests executed.
\<close>

definition retrieve_cart_information ::
  "nat \<Rightarrow> settings \<Rightarrow> cloud \<Rightarrow> string \<Rightarrow> cart run \<times> request list" where
  "retrieve_cart_information fuel cfg env customer_id =
     (case cfg ''GOOGLE_CLOUD_PROJECT'' of
        None \<Rightarrow> (Raised AttributeError, [])
      | Some p \<Rightarrow>
          (case instances_loop fuel cfg env customer_id
                  \<lparr> the_request = Some (instances_list p (zone_input env)),
                    the_cart = \<lparr> cart_items = [], cart_subtotal = 0 \<rparr> \<rparr> [] of
             (Raised e, executed) \<Rightarrow> (Raised e, executed)
           | (Running st, executed) \<Rightarrow> (Running (the_cart st), executed)
           | (Returned st, executed) \<Rightarrow>
               (case disks_loop fuel env customer_id st executed of
                  (Raised e, executed') \<Rightarrow> (Raised e, executed')
                | (Running st', executed') \<Rightarrow> (Running (the_cart st'), executed')
                | (Returned st', executed') \<Rightarrow> (Returned (the_cart st'), executed'))))"

subsection \<open>Tool results\<close>

record tool_result =
  status :: string
  message :: string

subsection \<open>\<open>send_meeting_invitation\<close>\<close>

record mail =
  mail_from :: string
  mail_to :: string
  mail_subject :: string
  mail_body :: string

text \<open>
  The mail relay and the two other sources of data of \<open>send_meeting_invitation\<close>:
  what \<open>ToolContext.get_input\<close> returns, the text of \<open>uuid.uuid4()\<close>, the session set-up
  (\<open>SMTP(...)\<close>, \<open>starttls\<close>, \<open>login\<close>), \<open>sendmail\<close> and \<open>quit\<close>, each giving the
  exception it raises, if any.
\<close>

record mail_env =
  receiver_input :: string
  uuid4 :: string
  smtp_login :: "string \<Rightarrow> string \<Rightarrow> error option"
  smtp_sendmail :: "mail \<Rightarrow> error option"
  smtp_quit :: "error option"

text \<open>
  Lines 31--85. The first argument is the number of stack frames Python still allows:
  entering the function with none left raises \<open>RecursionError\<close>. The last argument and
  the second component of the result list the mails delivered, in order.
\<close>

fun send_meeting_invitation ::
  "nat \<Rightarrow> settings \<Rightarrow> mail_env \<Rightarrow> string \<Rightarrow> string \<Rightarrow> string \<Rightarrow> string \<Rightarrow> string
     \<Rightarrow> mail list \<Rightarrow> tool_result run \<times> mail list" where
  "send_meeting_invitation 0 cfg env sender_email0 sender_password0 receiver_email0
       subject0 message0 delivered =
     (Raised RecursionError, delivered)"
| "send_meeting_invitation (Suc frames) cfg env sender_email0 sender_password0 receiver_email0
       subject0 message0 delivered =
     (case cfg ''sender_email'' of
        None \<Rightarrow> (Raised AttributeError, delivered)
      | Some sender_email \<Rightarrow>
     (case cfg ''sender_password'' of
        None \<Rightarrow> (Raised AttributeError, delivered)
      | Some sender_password \<Rightarrow>
     (let receiver_email = receiver_input env;
          subject = ''Meeting Invitation!'';
          meeting_id = take 8 (uuid4 env);
          meeting_link = ''https://meet.google.com/'' @ meeting_id;
          message =
            ''Hello there! This issue needs further investigation. Please join the meeting session using the link below.''
            @ [CHR 0x0A] @ meeting_link;
          email_message = \<lparr> mail_from = sender_email, mail_to = receiver_email,
                            mail_subject = subject, mail_body = message \<rparr>
      in
      case smtp_login env sender_email sender_password of
        Some e \<Rightarrow> (Raised e, delivered)
      | None \<Rightarrow>
     (case smtp_sendmail env email_message of
        Some e \<Rightarrow> (Raised e, delivered)
      | None \<Rightarrow>
     (case smtp_quit env of
        Some e \<Rightarrow> (Raised e, delivered @ [email_message])
      | None \<Rightarrow>
     (case send_meeting_invitation frames cfg env sender_email sender_password receiver_email
             subject message (delivered @ [email_message]) of
        (Returned r, delivered') \<Rightarrow>
          (Returned \<lparr> status = ''success'', message = ''Link sent to '' @ receiver_email \<rparr>,
           delivered')
      | (Raised e, delivered') \<Rightarrow> (Raised e, delivered')
      | (Running r, delivered') \<Rightarrow> (Running r, delivered')))))))"

subsection \<open>\<open>update_hubspot_crm\<close>\<close>

type_synonym details = "(string \<times> string) list"

text \<open>An outbound call to the CRM: access token, contact id, properties.\<close>

type_synonym crm_call = "string \<times> string \<times> details"

text \<open>
  The conversation and the CRM: the answer of \<open>ToolContext.get_confirmation\<close>, the
  contact update (the exception it raises or the API response), and
  \<open>ToolContext.log_info\<close> (the text of the exception it raises, if any).
\<close>

record crm_env =
  get_confirmation :: "string \<Rightarrow> details \<Rightarrow> bool"
  contacts_update :: "string \<Rightarrow> string \<Rightarrow> details \<Rightarrow> error + string"
  log_info :: "string \<Rightarrow> string option"

text \<open>Lines 145--146: the loop over \<open>details.items()\<close>; the first failure ends it.\<close>

fun log_details :: "crm_env \<Rightarrow> details \<Rightarrow> string option" where
  "log_details env [] = None"
| "log_details env ((key, val) # rest) =
     (case log_info env (''Updating '' @ key @ '': '' @ val) of
        Some msg \<Rightarrow> Some msg
      | None \<Rightarrow> log_details env rest)"

text \<open>
  Lines 88--151. The handler of \<open>hubspot.ApiException\<close> logs and re-raises, and no other
  exception is caught in the first \<open>try\<close>, so every exception of that block leaves the
  call. The second component of the result lists the outbound CRM calls.
\<close>

definition update_hubspot_crm ::
  "settings \<Rightarrow> crm_env \<Rightarrow> string \<Rightarrow> details \<Rightarrow> tool_result run \<times> crm_call list" where
  "update_hubspot_crm cfg env customer_id details =
     (let confirm = get_confirmation env customer_id details in
      if \<not> confirm then
        (Returned \<lparr> status = ''cancelled'', message = ''Update cancelled by user'' \<rparr>, [])
      else
        (case cfg ''hubspot_api_key'' of
           None \<Rightarrow> (Raised AttributeError, [])
         | Some access_token \<Rightarrow>
        (case contacts_update env access_token customer_id details of
           Inl e \<Rightarrow> (Raised e, [(access_token, customer_id, details)])
         | Inr api_response \<Rightarrow>
        (case log_info env (''HubSpot API response: '' @ api_response) of
           Some msg \<Rightarrow> (Raised (ServiceError msg), [(access_token, customer_id, details)])
         | None \<Rightarrow>
        (case log_details env details of
           Some msg \<Rightarrow>
             (Returned \<lparr> status = ''error'', message = ''Failed to update HubSpot: '' @ msg \<rparr>,
              [(access_token, customer_id, details)])
         | None \<Rightarrow>
             (Returned \<lparr> status = ''success'', message = ''HubSpot record updated.'' \<rparr>,
              [(access_token, customer_id, details)]))))))"

subsection \<open>\<open>get_product_recommendations\<close>\<close>

record machine =
  machine_name :: string
  guestCpus :: int
  memoryMb :: int






text \<open>
  The conversation and the catalog: what \<open>ToolContext.get_input\<close> returns for each
  question, and the listings of machine types and disk types (project, zone), each the
  exception raised or the \<open>items\<close> of the response, if it has that key.
\<close>

record catalog =
  workload_type_input :: string
  vcpu_count_input :: string
  memory_needed_input :: string
  recommendation_zone_input :: string
  storage_needed_input :: string
  machineTypes :: "string \<Rightarrow> string \<Rightarrow> error + machine list option"
  diskTypes :: "string \<Rightarrow> string \<Rightarrow> error + string list option"











subsection \<open>Concrete settings, services and inputs\<close>

text \<open>A settings object on which every attribute name that the tools read resolves.\<close>

definition tool_settings :: settings where
  "tool_settings a =
     (if a = ''GOOGLE_CLOUD_PROJECT'' then Some ''my_project''
      else if a = ''sender_email'' then Some ''agent@example.com''
      else if a = ''sender_password'' then Some ''app-password''
      else if a = ''hubspot_api_key'' then Some ''pat-key''
      else None)"

definition priced :: "int \<Rightarrow> sku_response" where
  "priced n = \<lparr> skus = Some [\<lparr> pricingInfo = [\<lparr> tieredRates = [\<lparr> nanos = n \<rparr>] \<rparr>] \<rparr>] \<rparr>"

text \<open>
  A billing catalog with an hourly price of 0.10 for \<open>n2-standard-2\<close>, a monthly price
  of 0.17 per GB for \<open>pd-ssd\<close>, and no SKU for any other resource type.
\<close>

definition example_billing :: "string \<Rightarrow> error + sku_response" where
  "example_billing t =
     (if t = ''n2-standard-2'' then Inr (priced 100000000)
      else if t = ''pd-ssd'' then Inr (priced 170000000)
      else Inr \<lparr> skus = Some [] \<rparr>)"

definition instance_of :: "string \<Rightarrow> string \<Rightarrow> string \<Rightarrow> resource" where
  "instance_of customer n mt =
     \<lparr> labels = Some [''customer_id'' \<mapsto> customer], res_name = Some n,
       machineType = Some (''zones/us-central1-a/machineTypes/'' @ mt),
       res_type = None, sizeGb = None \<rparr>"

definition disk_of :: "string \<Rightarrow> string \<Rightarrow> string \<Rightarrow> int \<Rightarrow> resource" where
  "disk_of customer n ty gb =
     \<lparr> labels = Some [''customer_id'' \<mapsto> customer], res_name = Some n,
       machineType = None,
       res_type = Some (''zones/us-central1-a/diskTypes/'' @ ty), sizeGb = Some gb \<rparr>"

text \<open>
  A catalog whose instance listing is split across two pages: \<open>web-1\<close> (customer 123)
  and \<open>other-1\<close> (customer 456) on the first, \<open>web-2\<close> (customer 123) on the second.
  The disk listing is empty.
\<close>

definition paged_compute :: "request \<Rightarrow> error + response" where
  "paged_compute r =
     (if collection r = Instances then
        (if pageToken r = None then
           Inr \<lparr> items = Some [instance_of ''123'' ''web-1'' ''n2-standard-2'',
                               instance_of ''456'' ''other-1'' ''n2-standard-2''],
                 nextPageToken = Some ''page-2'' \<rparr>
         else if pageToken r = Some ''page-2'' then
           Inr \<lparr> items = Some [instance_of ''123'' ''web-2'' ''n2-standard-2''],
                 nextPageToken = None \<rparr>
         else Inl (ServiceError ''invalid page token''))
      else Inr \<lparr> items = None, nextPageToken = None \<rparr>)"

definition paged_cloud :: cloud where
  "paged_cloud =
     \<lparr> zone_input = ''us-central1-a'', compute = paged_compute, billing = example_billing \<rparr>"

text \<open>The same three instances listed on a single page.\<close>

definition unpaged_compute :: "request \<Rightarrow> error + response" where
  "unpaged_compute r =
     (if collection r = Instances then
        Inr \<lparr> items = Some [instance_of ''123'' ''web-1'' ''n2-standard-2'',
                            instance_of ''456'' ''other-1'' ''n2-standard-2'',
                            instance_of ''123'' ''web-2'' ''n2-standard-2''],
              nextPageToken = None \<rparr>
      else Inr \<lparr> items = None, nextPageToken = None \<rparr>)"

definition unpaged_cloud :: cloud where
  "unpaged_cloud =
     \<lparr> zone_input = ''us-central1-a'', compute = unpaged_compute, billing = example_billing \<rparr>"

text \<open>
  A catalog with two instances of customer 123 on one page: \<open>batch-1\<close> of a machine
  type without a pricing SKU, then \<open>web-1\<close> of a priced one.
\<close>

definition unpriced_compute :: "request \<Rightarrow> error + response" where
  "unpriced_compute r =
     (if collection r = Instances then
        Inr \<lparr> items = Some [instance_of ''123'' ''batch-1'' ''n2-custom-6'',
                            instance_of ''123'' ''web-1'' ''n2-standard-2''],
              nextPageToken = None \<rparr>
      else Inr \<lparr> items = None, nextPageToken = None \<rparr>)"

definition unpriced_cloud :: cloud where
  "unpriced_cloud =
     \<lparr> zone_input = ''us-central1-a'', compute = unpriced_compute, billing = example_billing \<rparr>"

text \<open>
  A catalog with one instance of customer 123 (\<open>n2-standard-2\<close>) and one disk of
  customer 123 (\<open>pd-ssd\<close>, 100 GB), each listing on a single page.
\<close>

definition scenario_compute :: "request \<Rightarrow> error + response" where
  "scenario_compute r =
     (if collection r = Instances then
        Inr \<lparr> items = Some [instance_of ''123'' ''web-1'' ''n2-standard-2''],
              nextPageToken = None \<rparr>
      else
        Inr \<lparr> items = Some [disk_of ''123'' ''data-1'' ''pd-ssd'' 100],
              nextPageToken = None \<rparr>)"

definition scenario_cloud :: cloud where
  "scenario_cloud =
     \<lparr> zone_input = ''us-central1-a'', compute = scenario_compute, billing = example_billing \<rparr>"

text \<open>A mail relay that accepts every session and every mail.\<close>

definition working_relay :: mail_env where
  "working_relay =
     \<lparr> receiver_input = ''customer@example.com'',
       uuid4 = ''123e4567-e89b-42d3-a456-426614174000'',
       smtp_login = (\<lambda>u p. None),
       smtp_sendmail = (\<lambda>m. None),
       smtp_quit = None \<rparr>"

text \<open>
  Three conversations with the CRM: the user declines; the user confirms and the CRM
  accepts the update; the user confirms and the CRM rejects the update.
\<close>

definition declined_crm :: crm_env where
  "declined_crm =
     \<lparr> get_confirmation = (\<lambda>c d. False),
       contacts_update = (\<lambda>t c d. Inr ''updated''),
       log_info = (\<lambda>l. None) \<rparr>"



definition appointment :: details where
  "appointment = [(''appointment_date'', ''2024-07-25''), (''appointment_time'', ''9-12'')]"






subsection \<open>Catalog views used in the statements\<close>

text \<open>The catalog with every resource that is not labelled for the customer removed.\<close>

definition only_customer :: "string \<Rightarrow> cloud \<Rightarrow> cloud" where
  "only_customer cid env =
     env\<lparr>compute := (\<lambda>req. case compute env req of
                            Inl e \<Rightarrow> Inl e
                          | Inr resp \<Rightarrow>
                              Inr (resp\<lparr>items := map_option (filter (label_matches cid))
                                                    (items resp)\<rparr>))\<rparr>"


section \<open>Properties of \<open>retrieve_cart_information\<close>\<close>

subsection \<open>Invariants of the cart loops\<close>








subsection \<open>The first loop never ends normally\<close>

lemma instances_loop_not_Returned:
  "the_request st \<noteq> None \<Longrightarrow> fst (instances_loop fuel cfg env cid st ex) \<noteq> Returned st'"
proof (induction fuel arbitrary: st ex)
  case 0
  then show ?case by (auto split: option.splits)
next
  case (Suc fuel)
  then show ?case
    by (auto split: option.splits sum.splits)
qed

lemma retrieve_cart_information_never_returns:
  "fst (retrieve_cart_information fuel cfg env cid) \<noteq> Returned c"
proof (cases "cfg ''GOOGLE_CLOUD_PROJECT''")
  case None
  then show ?thesis by (simp add: retrieve_cart_information_def)
next
  case (Some p)
  let ?st0 = "\<lparr> the_request = Some (instances_list p (zone_input env)),
                the_cart = \<lparr> cart_items = [], cart_subtotal = 0 \<rparr> \<rparr>"
  obtain o1 ex1 where l1: "instances_loop fuel cfg env cid ?st0 [] = (o1, ex1)"
    by (cases "instances_loop fuel cfg env cid ?st0 []") auto
  have nr: "o1 \<noteq> Returned st'" for st'
    using instances_loop_not_Returned [of ?st0 fuel cfg env cid "[]" st'] l1 by simp
  show ?thesis
  proof (cases o1)
    case (Returned st1)
    with nr [of st1] show ?thesis by simp
  next
    case (Raised e)
    with Some l1 show ?thesis by (simp add: retrieve_cart_information_def)
  next
    case (Running st1)
    with Some l1 show ?thesis by (simp add: retrieve_cart_information_def)
  qed
qed

lemma retrieve_cart_information_declared_config:
  "retrieve_cart_information fuel (Config_getattr c) env cid = (Raised AttributeError, [])"
  by (simp add: retrieve_cart_information_def Config_getattr_def)

text \<open>Once the loop holds the disk request and the disk listing is empty, it repeats.\<close>

lemma instances_loop_repeats:
  assumes "cfg ''GOOGLE_CLOUD_PROJECT'' = Some p"
    and "compute env (disks_list p (zone_input env)) = Inr resp"
    and "get_items resp = []"
  shows "instances_loop n cfg env cid
           \<lparr> the_request = Some (disks_list p (zone_input env)), the_cart = c \<rparr> ex
         = (Running \<lparr> the_request = Some (disks_list p (zone_input env)), the_cart = c \<rparr>,
            ex @ replicate n (disks_list p (zone_input env)))"
proof (induction n arbitrary: ex)
  case 0
  show ?case by simp
next
  case (Suc n)
  show ?case using assms Suc [of "ex @ [disks_list p (zone_input env)]"]
    by (simp add: replicate_append_same)
qed

subsection \<open>Resources of other customers\<close>

lemma billing_only_customer [simp]: "billing (only_customer cid env) = billing env"
  by (simp add: only_customer_def)

lemma instance_item_only_customer [simp]:
  "instance_item (only_customer cid env) r = instance_item env r"
  by (cases "machineType r") (simp_all add: instance_item_def)

lemma disk_item_only_customer [simp]:
  "disk_item (only_customer cid env) r = disk_item env r"
  by (cases "res_type r"; cases "sizeGb r") (simp_all add: disk_item_def)










lemmas cart_example_defs =
  tool_settings_def scenario_cloud_def scenario_compute_def paged_cloud_def paged_compute_def unpaged_cloud_def unpaged_compute_def
  unpriced_cloud_def unpriced_compute_def example_billing_def priced_def instance_of_def
  disk_of_def instances_list_def disks_list_def list_next_def get_items_def label_matches_def
  last_segment_def unit_price_def add_item_def instance_item_def disk_item_def
  retrieve_cart_information_def






text \<open>
  The disk listing is read by the first loop, which reads \<open>machineType\<close> from every
  matched resource: a disk of the customer ends the call with \<open>KeyError\<close>.
\<close>

lemma retrieve_cart_information_scenario:
  "retrieve_cart_information 3 tool_settings scenario_cloud ''123'' =
     (Raised KeyError,
      [instances_list ''my_project'' ''us-central1-a'',
       disks_list ''my_project'' ''us-central1-a''])"
  by (simp add: cart_example_defs numeral_3_eq_3)

lemma instances_page_raises:
  "r \<in> set rs \<Longrightarrow> label_matches cid r \<Longrightarrow> instance_item env r = Inl e0 \<Longrightarrow>
   \<exists>e. instances_page cid env resp rs st = Inl e"
proof (induction rs arbitrary: st)
  case Nil
  then show ?case by simp
next
  case (Cons x rs)
  show ?case
  proof (cases "x = r")
    case True
    with Cons.prems show ?thesis by simp
  next
    case False
    with Cons.prems have "r \<in> set rs" by simp
    from Cons.IH [OF this Cons.prems(2,3)] show ?thesis
      by (cases "instance_item env x") simp_all
  qed
qed

lemma instance_item_no_sku:
  assumes "machineType r = Some mt" and "billing env (last_segment mt) = Inr price_request"
    and "skus price_request = Some [] \<or> skus price_request = None"
  shows "\<exists>e. instance_item env r = Inl e"
  using assms by (auto simp: instance_item_def unit_price_def)







text \<open>
  Claim C2, at a catalog whose instance listing has two pages, and at the catalog with
  the same instances on one page. On the paged catalog the call executes the request
  for the first page of instances, then only the disk listing request, once for every
  further iteration: the second page is never requested, the cart holds \<open>web-1\<close> alone,
  and the call does not return. On the unpaged catalog the cart holds \<open>web-1\<close> and
  \<open>web-2\<close>, and the call does not return either. With the \<open>Config\<close> class of
  \<open>config.py\<close>, which has no attribute \<open>GOOGLE_CLOUD_PROJECT\<close>, the call raises
  \<open>AttributeError\<close> before any request.
\<close>

theorem retrieve_cart_information_pagination:
  "retrieve_cart_information (Suc n) tool_settings paged_cloud ''123'' =
     (Running \<lparr> cart_items =
                  [\<lparr> product_id = ''n2-standard-2'', name = InstanceName ''web-1'',
                     quantity = 1, monthly_cost = 73 \<rparr>],
                cart_subtotal = 73 \<rparr>,
      instances_list ''my_project'' ''us-central1-a''
        # replicate n (disks_list ''my_project'' ''us-central1-a''))
   \<and> retrieve_cart_information (Suc n) tool_settings unpaged_cloud ''123'' =
     (Running \<lparr> cart_items =
                  [\<lparr> product_id = ''n2-standard-2'', name = InstanceName ''web-1'',
                     quantity = 1, monthly_cost = 73 \<rparr>,
                   \<lparr> product_id = ''n2-standard-2'', name = InstanceName ''web-2'',
                     quantity = 1, monthly_cost = 73 \<rparr>],
                cart_subtotal = 146 \<rparr>,
      instances_list ''my_project'' ''us-central1-a''
        # replicate n (disks_list ''my_project'' ''us-central1-a''))
   \<and> retrieve_cart_information (Suc n) (Config_getattr c) paged_cloud ''123'' =
     (Raised AttributeError, [])"
proof -
  have rep1: "instances_loop n tool_settings paged_cloud ''123''
               \<lparr> the_request = Some (disks_list ''my_project'' ''us-central1-a''), the_cart = c \<rparr> ex
             = (Running \<lparr> the_request = Some (disks_list ''my_project'' ''us-central1-a''),
                          the_cart = c \<rparr>,
                ex @ replicate n (disks_list ''my_project'' ''us-central1-a''))" for c ex
    using instances_loop_repeats [of tool_settings "''my_project''" paged_cloud
            "\<lparr>items = None, nextPageToken = None\<rparr>" n "''123''" c ex]
    by (simp add: tool_settings_def paged_cloud_def paged_compute_def disks_list_def
          get_items_def)
  have rep2: "instances_loop n tool_settings unpaged_cloud ''123''
               \<lparr> the_request = Some (disks_list ''my_project'' ''us-central1-a''), the_cart = c \<rparr> ex
             = (Running \<lparr> the_request = Some (disks_list ''my_project'' ''us-central1-a''),
                          the_cart = c \<rparr>,
                ex @ replicate n (disks_list ''my_project'' ''us-central1-a''))" for c ex
    using instances_loop_repeats [of tool_settings "''my_project''" unpaged_cloud
            "\<lparr>items = None, nextPageToken = None\<rparr>" n "''123''" c ex]
    by (simp add: tool_settings_def unpaged_cloud_def unpaged_compute_def disks_list_def
          get_items_def)
  have s1: "tool_settings ''GOOGLE_CLOUD_PROJECT'' = Some ''my_project''"
    by (simp add: tool_settings_def)
  have z1: "zone_input paged_cloud = ''us-central1-a''" "zone_input unpaged_cloud = ''us-central1-a''"
    by (simp_all add: paged_cloud_def unpaged_cloud_def)
  have c1: "compute paged_cloud (instances_list ''my_project'' ''us-central1-a'') = 
     Inr \<lparr> items = Some [instance_of ''123'' ''web-1'' ''n2-standard-2'',
                               instance_of ''456'' ''other-1'' ''n2-standard-2''],
                 nextPageToken = Some ''page-2'' \<rparr>"
    by (simp add: paged_cloud_def paged_compute_def instances_list_def)
  have c2: "compute unpaged_cloud (instances_list ''my_project'' ''us-central1-a'') = 
        Inr \<lparr> items = Some [instance_of ''123'' ''web-1'' ''n2-standard-2'',
                            instance_of ''456'' ''other-1'' ''n2-standard-2'',
                            instance_of ''123'' ''web-2'' ''n2-standard-2''],
              nextPageToken = None \<rparr>"
    by (simp add: unpaged_cloud_def unpaged_compute_def instances_list_def)
  have i1: "instance_item paged_cloud (instance_of ''123'' n ''n2-standard-2'')
            = Inr \<lparr> product_id = ''n2-standard-2'', name = InstanceName n,
                     quantity = 1, monthly_cost = 73 \<rparr>"
           "instance_item unpaged_cloud (instance_of ''123'' n ''n2-standard-2'')
            = Inr \<lparr> product_id = ''n2-standard-2'', name = InstanceName n,
                     quantity = 1, monthly_cost = 73 \<rparr>" for n
    by (simp_all add: instance_item_def instance_of_def last_segment_def paged_cloud_def
          unpaged_cloud_def example_billing_def priced_def unit_price_def)
  have m: "label_matches ''123'' (instance_of ''123'' n t)"
          "\<not> label_matches ''123'' (instance_of ''456'' n t)" for n t
    by (simp_all add: label_matches_def instance_of_def)
  show ?thesis
    by (simp add: retrieve_cart_information_def s1 z1 c1 c2 i1 m get_items_def add_item_def
          rep1 rep2 Config_getattr_def)
qed

text \<open>
  Claim C3, at a catalog where the first of two matched instances has no pricing SKU:
  the call raises \<open>IndexError\<close> and returns no cart, although the second instance is
  priced. With the \<open>Config\<close> class of \<open>config.py\<close> the call raises \<open>AttributeError\<close>
  before any request, and returns no cart either.
\<close>

theorem retrieve_cart_information_missing_sku_counterexample:
  "retrieve_cart_information 3 tool_settings unpriced_cloud ''123'' =
     (Raised IndexError, [instances_list ''my_project'' ''us-central1-a''])
   \<and> retrieve_cart_information 3 (Config_getattr Config_defaults) unpriced_cloud ''123'' =
     (Raised AttributeError, [])"
  by (simp add: cart_example_defs numeral_3_eq_3 Config_getattr_def)

text \<open>
  Claim C3 as amended. When the billing catalog returns no pricing SKU for the type of a
  matched instance on the first page of the instance listing, the call aborts with an
  exception after that one request, and returns no cart.
\<close>

theorem retrieve_cart_information_missing_sku:
  assumes "cfg ''GOOGLE_CLOUD_PROJECT'' = Some p"
    and "compute env (instances_list p (zone_input env)) = Inr resp"
    and "r \<in> set (get_items resp)"
    and "label_matches customer_id r"
    and "machineType r = Some mt"
    and "billing env (last_segment mt) = Inr price_request"
    and "skus price_request = Some [] \<or> skus price_request = None"
  shows "\<exists>e. retrieve_cart_information (Suc n) cfg env customer_id =
               (Raised e, [instances_list p (zone_input env)])"
proof -
  obtain e0 where "instance_item env r = Inl e0"
    using instance_item_no_sku [OF assms(5,6,7)] by blast
  from instances_page_raises [OF assms(3,4) this]
  obtain e where "instances_page customer_id env resp (get_items resp)
       \<lparr> the_request = Some (instances_list p (zone_input env)),
         the_cart = \<lparr> cart_items = [], cart_subtotal = 0 \<rparr> \<rparr> = Inl e"
    by blast
  with assms(1,2) show ?thesis
    by (simp add: retrieve_cart_information_def)
qed

theorem retrieve_cart_information_missing_sku_witness:
  "\<exists>e. retrieve_cart_information (Suc 0) tool_settings unpriced_cloud ''123'' =
               (Raised e, [instances_list ''my_project'' ''us-central1-a''])"
  using retrieve_cart_information_missing_sku
     [of tool_settings "''my_project''" unpriced_cloud _
         "instance_of ''123'' ''batch-1'' ''n2-custom-6''" "''123''"
         "''zones/us-central1-a/machineTypes/n2-custom-6''" "\<lparr> skus = Some [] \<rparr>" 0]
  by (simp add: tool_settings_def unpriced_cloud_def unpriced_compute_def instances_list_def
       get_items_def label_matches_def instance_of_def last_segment_def example_billing_def)

section \<open>Properties of \<open>send_meeting_invitation\<close>\<close>

lemma send_meeting_invitation_raises:
  "\<exists>e d. send_meeting_invitation frames cfg env se sp re su me delivered = (Raised e, d)"
proof (induction frames arbitrary: se sp re su me delivered)
  case 0
  show ?case by simp
next
  case (Suc frames)
  show ?case
  proof (cases "cfg ''sender_email''")
    case None
    then show ?thesis by simp
  next
    case se': (Some sender_email)
    show ?thesis
    proof (cases "cfg ''sender_password''")
      case None
      with se' show ?thesis by simp
    next
      case sp': (Some sender_password)
      let ?message =
        "''Hello there! This issue needs further investigation. Please join the meeting session using the link below.''
         @ [CHR 0x0A] @ ''https://meet.google.com/'' @ take 8 (uuid4 env)"
      let ?mail = "\<lparr> mail_from = sender_email, mail_to = receiver_input env,
                     mail_subject = ''Meeting Invitation!'', mail_body = ?message \<rparr>"
      show ?thesis
      proof (cases "smtp_login env sender_email sender_password")
        case (Some e)
        with se' sp' show ?thesis by (simp add: Let_def)
      next
        case login: None
        show ?thesis
        proof (cases "smtp_sendmail env ?mail")
          case (Some e)
          with se' sp' login show ?thesis by (simp add: Let_def)
        next
          case sent: None
          show ?thesis
          proof (cases "smtp_quit env")
            case (Some e)
            with se' sp' login sent show ?thesis by (simp add: Let_def)
          next
            case quit: None
            obtain e d where
              "send_meeting_invitation frames cfg env sender_email sender_password
                 (receiver_input env) ''Meeting Invitation!'' ?message (delivered @ [?mail])
               = (Raised e, d)"
              using Suc by blast
            with se' sp' login sent quit show ?thesis by (simp add: Let_def)
          qed
        qed
      qed
    qed
  qed
qed

lemma send_meeting_invitation_delivers:
  assumes "cfg ''sender_email'' = Some a" and "cfg ''sender_password'' = Some b"
    and "smtp_login env a b = None" and "\<And>m. smtp_sendmail env m = None"
    and "smtp_quit env = None"
  shows "length (snd (send_meeting_invitation frames cfg env se sp re su me delivered))
         = length delivered + frames"
proof (induction frames arbitrary: se sp re su me delivered)
  case 0
  show ?case by simp
next
  case (Suc frames)
  let ?message =
    "''Hello there! This issue needs further investigation. Please join the meeting session using the link below.''
     @ [CHR 0x0A] @ ''https://meet.google.com/'' @ take 8 (uuid4 env)"
  let ?mail = "\<lparr> mail_from = a, mail_to = receiver_input env,
                 mail_subject = ''Meeting Invitation!'', mail_body = ?message \<rparr>"
  obtain e d where rec:
    "send_meeting_invitation frames cfg env a b (receiver_input env) ''Meeting Invitation!''
       ?message (delivered @ [?mail]) = (Raised e, d)"
    using send_meeting_invitation_raises by blast
  have "length (snd (send_meeting_invitation frames cfg env a b (receiver_input env)
                  ''Meeting Invitation!'' ?message (delivered @ [?mail])))
        = length (delivered @ [?mail]) + frames"
    by (rule Suc)
  with rec have len: "length d = length delivered + Suc frames" by simp
  have "send_meeting_invitation (Suc frames) cfg env se sp re su me delivered = (Raised e, d)"
    using assms rec by (simp add: Let_def)
  with len show ?case by simp
qed

text \<open>
  Claim C4. \<open>send_meeting_invitation\<close> calls itself after every delivery, so it
  never returns a status: whatever the settings, the relay, the arguments and the number
  of stack frames available, the call ends with an exception. With settings that resolve
  and a relay that accepts every mail it delivers one mail for every frame available,
  not one mail, before \<open>RecursionError\<close> ends it. With the \<open>Config\<close> class of
  \<open>config.py\<close>, which has no attribute \<open>sender_email\<close>, it raises \<open>AttributeError\<close>
  before any delivery.
\<close>

theorem send_meeting_invitation_recursion:
  "(\<exists>e d. send_meeting_invitation frames cfg env sender_email sender_password receiver_email
            subject body delivered = (Raised e, d))
   \<and> length (snd (send_meeting_invitation frames tool_settings working_relay sender_email
                    sender_password receiver_email subject body [])) = frames
   \<and> send_meeting_invitation (Suc frames) (Config_getattr c) env sender_email sender_password
        receiver_email subject body delivered = (Raised AttributeError, delivered)"
proof (intro conjI)
  show "\<exists>e d. send_meeting_invitation frames cfg env sender_email sender_password
                 receiver_email subject body delivered = (Raised e, d)"
    by (rule send_meeting_invitation_raises)
  show "length (snd (send_meeting_invitation frames tool_settings working_relay sender_email
                    sender_password receiver_email subject body [])) = frames"
    using send_meeting_invitation_delivers
            [of tool_settings "''agent@example.com''" "''app-password''" working_relay frames
                sender_email sender_password receiver_email subject body "[]"]
    by (simp add: tool_settings_def working_relay_def)
  show "send_meeting_invitation (Suc frames) (Config_getattr c) env sender_email sender_password
        receiver_email subject body delivered = (Raised AttributeError, delivered)"
    by (simp add: Config_getattr_def)
qed

section \<open>Properties of \<open>update_hubspot_crm\<close>\<close>

text \<open>
  Claim C7. When the confirmation is withheld, \<open>update_hubspot_crm\<close> returns status
  \<open>cancelled\<close> and makes no outbound CRM call.
\<close>

theorem update_hubspot_crm_cancelled:
  "\<not> get_confirmation env customer_id details \<Longrightarrow>
   update_hubspot_crm cfg env customer_id details =
     (Returned \<lparr> status = ''cancelled'', message = ''Update cancelled by user'' \<rparr>, [])"
  by (simp add: update_hubspot_crm_def)

theorem update_hubspot_crm_cancelled_witness:
  "\<not> get_confirmation declined_crm ''123'' appointment \<and>
   update_hubspot_crm (Config_getattr Config_defaults) declined_crm ''123'' appointment =
     (Returned \<lparr> status = ''cancelled'', message = ''Update cancelled by user'' \<rparr>, [])"
proof -
  have h: "\<not> get_confirmation declined_crm ''123'' appointment"
    by (simp add: declined_crm_def)
  from update_hubspot_crm_cancelled [OF h] h show ?thesis by simp
qed




section \<open>Properties of \<open>get_product_recommendations\<close>\<close>














end
